theory Spec2Isabelle
  imports Main "HOL-Library.Char_ord" "HOL-Library.List_Lexorder" "HOL-Library.Monad_Syntax"
begin

unbundle bit_operations_syntax

section \<open>The filestore: a versioning file store over SQLite and the local disk\<close>

text \<open>
  The development embeds \<^verbatim>\<open>filestore.go\<close>, \<^verbatim>\<open>filehelpers.go\<close> and the date helpers
  (\<^verbatim>\<open>ParseDBDate\<close>, \<^verbatim>\<open>ToDBDate\<close>). Strings are Go strings read as lists of
  characters. The platform is a Unix one: \<^verbatim>\<open>os.PathSeparator\<close> is the slash.

  Three things lie outside the Go sources and are modelled here as far as the code
  relies on them:
  \<^item> the operating system: the regular files of the disk and the ways in which
    creating a directory, creating a file and copying bytes can fail;
  \<^item> the libraries whose output is only passed on (BLAKE2b, Snappy, Metaphone3 and
    the FTS5 query language), collected in the record \<open>Env\<close>;
  \<^item> SQLite, for the statements the store prepares: tables are lists of rows in
    rowid order, \<^verbatim>\<open>order by\<close> is a stable sort of the scan order (SQLite sorts a
    query that has a limit by its key and then by the order in which it found the
    rows), \<^verbatim>\<open>limit\<close> truncates, \<^verbatim>\<open>like\<close> is SQLite's pattern match.
\<close>

subsection \<open>Errors, slices and results\<close>

text \<open>
  The three sentinel errors of the package, the errors of the libraries the store
  calls, and \<^verbatim>\<open>fmt.Errorf("...: %w", err)\<close> as \<open>Wrapped\<close>.
\<close>

datatype error =
    ErrDirectoryIsFile
  | ErrNotOpen
  | ErrInvalidDate
  | ErrNoRows
  | ErrNotExist
  | ErrMkdir
  | ErrCreate
  | ErrIO
  | ErrCorrupt
  | ErrDBClosed
  | ErrSQLSyntax
  | ErrConstraint
  | ErrNilPointer
  | Wrapped string error

text \<open>A Go slice is nil or holds a list of elements; an empty slice is not nil.\<close>

datatype 'a slice = NilSlice | Slice "'a list"

subsection \<open>Paths (package path/filepath on Unix)\<close>

definition PathSeparator :: char where
  "PathSeparator = CHR ''/''"

definition IsPathSeparator :: "char \<Rightarrow> bool" where
  "IsPathSeparator c = (c = PathSeparator)"

text \<open>\<^verbatim>\<open>filepath.ToSlash\<close> and \<^verbatim>\<open>filepath.FromSlash\<close> return the path as it is when
  the separator is the slash, and exchange the two characters otherwise.\<close>

definition ToSlash :: "string \<Rightarrow> string" where
  "ToSlash p = (if PathSeparator = CHR ''/'' then p
                else map (\<lambda>c. if c = PathSeparator then CHR ''/'' else c) p)"

definition FromSlash :: "string \<Rightarrow> string" where
  "FromSlash p = (if PathSeparator = CHR ''/'' then p
                  else map (\<lambda>c. if c = CHR ''/'' then PathSeparator else c) p)"

definition stripTrailingSeparators :: "string \<Rightarrow> string" where
  "stripTrailingSeparators p = rev (dropWhile IsPathSeparator (rev p))"

definition lastElement :: "string \<Rightarrow> string" where
  "lastElement p = rev (takeWhile (\<lambda>c. \<not> IsPathSeparator c) (rev p))"

text \<open>\<^verbatim>\<open>filepath.Base\<close>: the last element of the path, trailing separators removed
  first; \<^verbatim>\<open>"."\<close> for the empty path and the separator for a path of separators only.\<close>

definition Base :: "string \<Rightarrow> string" where
  "Base p =
     (if p = [] then ''.''
      else let q = lastElement (stripTrailingSeparators p)
           in if q = [] then [PathSeparator] else q)"

text \<open>The elements of a path between separators.\<close>

fun splitPath :: "string \<Rightarrow> string list" where
  "splitPath [] = [[]]"
| "splitPath (c # cs) =
     (if IsPathSeparator c then [] # splitPath cs
      else (case splitPath cs of [] \<Rightarrow> [[c]] | e # es \<Rightarrow> (c # e) # es))"

text \<open>\<^verbatim>\<open>filepath.Clean\<close>: the elements are pushed on a stack (kept reversed here);
  empty and dot elements are dropped, a dot-dot pops the element before it, is dropped
  at the root and is kept at the start of a relative path.\<close>

fun cleanElements :: "bool \<Rightarrow> string list \<Rightarrow> string list \<Rightarrow> string list" where
  "cleanElements rooted stack [] = rev stack"
| "cleanElements rooted stack (e # es) =
     (if e = [] \<or> e = ''.'' then cleanElements rooted stack es
      else if e = ''..'' then
        (case stack of
           [] \<Rightarrow> if rooted then cleanElements rooted [] es
                 else cleanElements rooted [e] es
         | t # ts \<Rightarrow> if t = ''..'' then cleanElements rooted (e # stack) es
                     else cleanElements rooted ts es)
      else cleanElements rooted (e # stack) es)"

fun joinPath :: "string list \<Rightarrow> string" where
  "joinPath [] = []"
| "joinPath [e] = e"
| "joinPath (e # es) = e @ [PathSeparator] @ joinPath es"

definition Clean :: "string \<Rightarrow> string" where
  "Clean p =
     (let rooted = (p \<noteq> [] \<and> IsPathSeparator (hd p));
          out = (if rooted then [PathSeparator] else []) @
                joinPath (cleanElements rooted [] (splitPath p))
      in if out = [] then ''.'' else out)"

text \<open>\<^verbatim>\<open>filepath.Dir\<close>: the path up to and including its last separator, cleaned.\<close>

definition DirOf :: "string \<Rightarrow> string" where
  "DirOf p = Clean (rev (dropWhile (\<lambda>c. \<not> IsPathSeparator c) (rev p)))"

subsection \<open>The operating system\<close>

text \<open>
  The disk holds regular files, keyed by the path they were created at; directories
  are not listed. What else decides an operation's outcome is given by three oracles:
  the paths at which \<^verbatim>\<open>os.MkdirAll\<close> fails, the paths at which \<^verbatim>\<open>os.Create\<close> fails
  (a missing directory, a directory in the way, permissions), and for a destination
  the number of bytes \<^verbatim>\<open>io.Copy\<close> transfers to it before an I/O error, if any.
\<close>

record OS =
  files :: "string \<rightharpoonup> string"
  mkdirFails :: "string \<Rightarrow> bool"
  createFails :: "string \<Rightarrow> bool"
  copyLimit :: "string \<Rightarrow> nat option"

text \<open>\<^verbatim>\<open>os.Remove\<close> of a regular file; its error is dropped by the caller.\<close>

definition os_Remove :: "string \<Rightarrow> OS \<Rightarrow> OS" where
  "os_Remove p w = w\<lparr>files := (files w)(p := None)\<rparr>"

text \<open>\<^verbatim>\<open>io.Copy\<close> into the open file \<open>dst\<close>: all of \<open>bytes\<close>, or the bytes before the
  error.\<close>

definition io_Copy :: "string \<Rightarrow> string \<Rightarrow> OS \<Rightarrow> error option \<times> OS" where
  "io_Copy dst bytes w =
     (case copyLimit w dst of
        None \<Rightarrow> (None, w\<lparr>files := (files w)(dst \<mapsto> bytes)\<rparr>)
      | Some n \<Rightarrow>
          if n < length bytes
          then (Some ErrIO, w\<lparr>files := (files w)(dst \<mapsto> take n bytes)\<rparr>)
          else (None, w\<lparr>files := (files w)(dst \<mapsto> bytes)\<rparr>))"

subsection \<open>Libraries\<close>

text \<open>
  \<open>blake2b512\<close> is the hex-encoded BLAKE2b-512 digest of a file's bytes;
  \<open>snappyEncode\<close> is the stream a \<^verbatim>\<open>snappy.Writer\<close> produces; \<open>snappyDecode\<close> gives
  the bytes a \<^verbatim>\<open>snappy.Reader\<close> yields and whether the stream was read to its end
  without an error; \<open>metaphone3\<close> is the primary encoding of a word; \<open>fts5\<close> reads
  an FTS5 query term and gives the text it matches, or nothing on a syntax error.
\<close>

record Env =
  blake2b512 :: "string \<Rightarrow> string"
  snappyEncode :: "string \<Rightarrow> string"
  snappyDecode :: "string \<Rightarrow> string \<times> bool"
  metaphone3 :: "string \<Rightarrow> string"
  fts5 :: "string \<Rightarrow> (string \<Rightarrow> bool) option"

subsection \<open>filehelpers.go\<close>

text \<open>\<^verbatim>\<open>ensureDirectory\<close>: a path that does not exist is created; a regular file at
  the path is an error.\<close>

definition ensureDirectory :: "string \<Rightarrow> OS \<Rightarrow> error option" where
  "ensureDirectory p w =
     (if files w p = None then (if mkdirFails w p then Some ErrMkdir else None)
      else Some ErrDirectoryIsFile)"

text \<open>\<^verbatim>\<open>asDirectoryPath\<close>: the path with a separator at its end, the empty path as it
  is. (The source decodes the last rune and also leaves a path alone that ends in
  invalid UTF-8; paths are read here as ASCII texts.)\<close>

definition asDirectoryPath :: "string \<Rightarrow> string" where
  "asDirectoryPath p =
     (if p = [] then []
      else if last p \<noteq> PathSeparator then p @ [PathSeparator]
      else p)"

text \<open>\<^verbatim>\<open>copyFile\<close>: open the source, create (truncate) the destination, then copy
  what the source holds: decompressing when restoring with compression, compressing
  when storing with compression, the bytes as they are otherwise.\<close>

definition copyFile :: "Env \<Rightarrow> string \<Rightarrow> string \<Rightarrow> bool \<Rightarrow> bool \<Rightarrow> OS \<Rightarrow> error option \<times> OS" where
  "copyFile E src dst useCompression restore w =
     (case files w src of
        None \<Rightarrow> (Some ErrNotExist, w)
      | Some _ \<Rightarrow>
          if createFails w dst then (Some ErrCreate, w)
          else
            let w1 = w\<lparr>files := (files w)(dst \<mapsto> [])\<rparr>;
                bytes = (case files w1 src of None \<Rightarrow> [] | Some b \<Rightarrow> b)
            in
            if useCompression then
              if restore then
                (let (plain, ok) = snappyDecode E bytes in
                 case io_Copy dst plain w1 of
                   (Some e, w2) \<Rightarrow> (Some e, w2)
                 | (None, w2) \<Rightarrow> if ok then (None, w2) else (Some ErrCorrupt, w2))
              else io_Copy dst (snappyEncode E bytes) w1
            else io_Copy dst bytes w1)"

subsection \<open>Times and the date helpers\<close>

text \<open>A \<^verbatim>\<open>time.Time\<close> by its calendar fields; the store only parses, formats and
  hands on times, without a zone.\<close>

record Time =
  Year :: nat
  Month :: nat
  Day :: nat
  Hour :: nat
  Minute :: nat
  Second :: nat
  Nanosecond :: nat

definition zeroTime :: Time where
  "zeroTime = \<lparr>Year = 1, Month = 1, Day = 1, Hour = 0, Minute = 0, Second = 0, Nanosecond = 0\<rparr>"

definition isDigit :: "char \<Rightarrow> bool" where
  "isDigit c = (CHR ''0'' \<le> c \<and> c \<le> CHR ''9'')"

definition digitVal :: "char \<Rightarrow> nat" where
  "digitVal c = of_char c - 48"

definition digitChar :: "nat \<Rightarrow> char" where
  "digitChar n = ''0123456789'' ! (n mod 10)"

text \<open>The number in decimal on at least \<open>w\<close> digits, as \<^verbatim>\<open>Format\<close> writes a field:
  \<open>w\<close> digits from the right, and before them the digits that are left, if any.\<close>

function leadingDigits :: "nat \<Rightarrow> string" where
  "leadingDigits n = (if n = 0 then [] else leadingDigits (n div 10) @ [digitChar n])"
  by pat_completeness auto
termination
  by (relation "measure id") auto

declare leadingDigits.simps [simp del]

fun padNat :: "nat \<Rightarrow> nat \<Rightarrow> string" where
  "padNat 0 n = leadingDigits n"
| "padNat (Suc w) n = padNat w (n div 10) @ [digitChar n]"

text \<open>\<^verbatim>\<open>ToDBDate\<close>: the layout \<^verbatim>\<open>2006-01-02 15:04:05\<close>.\<close>

definition ToDBDate :: "Time \<Rightarrow> string" where
  "ToDBDate t =
     padNat 4 (Year t) @ ''-'' @ padNat 2 (Month t) @ ''-'' @ padNat 2 (Day t) @ '' '' @
     padNat 2 (Hour t) @ '':'' @ padNat 2 (Minute t) @ '':'' @ padNat 2 (Second t)"

text \<open>
  \<^verbatim>\<open>time.Parse\<close> on the layout \<^verbatim>\<open>2006-01-02 15:04:05\<close>, element by element:
  a year of four digits, a month and a day of two, an hour of one or two, a minute
  and a second of two, each in its range and the day within its month; a run of
  spaces where the layout has its space; after the seconds an optional fraction, of
  which nine digits are kept; and nothing after that.
\<close>

fun getnum :: "string \<Rightarrow> bool \<Rightarrow> (nat \<times> string) option" where
  "getnum [] fixed = None"
| "getnum [a] fixed =
     (if \<not> isDigit a then None else if fixed then None else Some (digitVal a, []))"
| "getnum (a # b # s) fixed =
     (if \<not> isDigit a then None
      else if \<not> isDigit b then (if fixed then None else Some (digitVal a, b # s))
      else Some (digitVal a * 10 + digitVal b, s))"

fun getLongYear :: "string \<Rightarrow> (nat \<times> string) option" where
  "getLongYear (a # b # c # d # s) =
     (if isDigit a \<and> isDigit b \<and> isDigit c \<and> isDigit d
      then Some (digitVal a * 1000 + digitVal b * 100 + digitVal c * 10 + digitVal d, s)
      else None)"
| "getLongYear s = None"

fun skipChar :: "char \<Rightarrow> string \<Rightarrow> string option" where
  "skipChar c [] = None"
| "skipChar c (x # s) = (if x = c then Some s else None)"

definition skipSpaces :: "string \<Rightarrow> string option" where
  "skipSpaces s =
     (if s \<noteq> [] \<and> hd s \<noteq> CHR '' '' then None
      else Some (dropWhile (\<lambda>c. c = CHR '' '') s))"

definition inRange :: "nat \<Rightarrow> nat \<Rightarrow> nat \<Rightarrow> nat option" where
  "inRange lo hi n = (if lo \<le> n \<and> n \<le> hi then Some n else None)"

definition isLeap :: "nat \<Rightarrow> bool" where
  "isLeap y = (y mod 4 = 0 \<and> (y mod 100 \<noteq> 0 \<or> y mod 400 = 0))"

definition daysIn :: "nat \<Rightarrow> nat \<Rightarrow> nat" where
  "daysIn m y =
     (if m = 2 then (if isLeap y then 29 else 28)
      else if m = 4 \<or> m = 6 \<or> m = 9 \<or> m = 11 then 30 else 31)"

definition commaOrPeriod :: "char \<Rightarrow> bool" where
  "commaOrPeriod c = (c = CHR ''.'' \<or> c = CHR '','')"

text \<open>The fraction after the seconds: its digits, cut to nine and scaled to
  nanoseconds, and the rest of the input.\<close>

definition atoi :: "string \<Rightarrow> nat" where
  "atoi ds = fold (\<lambda>d n. n * 10 + digitVal d) ds 0"

definition parseNanoseconds :: "string \<Rightarrow> nat" where
  "parseNanoseconds ds = atoi (take 9 ds) * 10 ^ (9 - length (take 9 ds))"

definition getFraction :: "string \<Rightarrow> nat \<times> string" where
  "getFraction s =
     (case s of
        c # d # r \<Rightarrow>
          if commaOrPeriod c \<and> isDigit d
          then (parseNanoseconds (takeWhile isDigit (d # r)), dropWhile isDigit (d # r))
          else (0, s)
      | _ \<Rightarrow> (0, s))"

definition time_Parse :: "string \<Rightarrow> Time option" where
  "time_Parse s = do {
     (y, s1) \<leftarrow> getLongYear s;
     s2 \<leftarrow> skipChar (CHR ''-'') s1;
     (mo, s3) \<leftarrow> getnum s2 True;
     _ \<leftarrow> inRange 1 12 mo;
     s4 \<leftarrow> skipChar (CHR ''-'') s3;
     (d, s5) \<leftarrow> getnum s4 True;
     s6 \<leftarrow> skipSpaces s5;
     (h, s7) \<leftarrow> getnum s6 False;
     _ \<leftarrow> inRange 0 23 h;
     s8 \<leftarrow> skipChar (CHR '':'') s7;
     (mi, s9) \<leftarrow> getnum s8 True;
     _ \<leftarrow> inRange 0 59 mi;
     s10 \<leftarrow> skipChar (CHR '':'') s9;
     (se, s11) \<leftarrow> getnum s10 True;
     _ \<leftarrow> inRange 0 59 se;
     (ns, s12) \<leftarrow> Some (getFraction s11);
     _ \<leftarrow> inRange 1 (daysIn mo y) d;
     if s12 = [] then
       Some \<lparr>Year = y, Month = mo, Day = d, Hour = h, Minute = mi, Second = se,
             Nanosecond = ns\<rparr>
     else None
   }"

text \<open>\<^verbatim>\<open>ParseDBDate\<close>: the time, or nothing where Go returns an error.\<close>

definition ParseDBDate :: "string \<Rightarrow> Time option" where
  "ParseDBDate date = time_Parse date"

subsection \<open>The database\<close>

text \<open>
  The tables \<^verbatim>\<open>Files(file_id, checksum)\<close> and
  \<^verbatim>\<open>Versions(version_id, path, info, fuzzy, version, date, file)\<close> that \<^verbatim>\<open>Open\<close>
  creates, each a list of rows in rowid order, and the rows the full-text table
  \<^verbatim>\<open>VersionsFts\<close> serves (an external-content table: it serves what was written to
  it, and no statement of the store writes to it). The columns carry the prefix \<open>c_\<close> where the source's
  parameters have the same names.
\<close>

record FileRow =
  file_id :: int
  checksum :: string

record VersionRow =
  version_id :: int
  c_path :: string
  c_info :: string
  c_fuzzy :: string
  c_version :: string
  c_date :: string
  c_file :: int

record Database =
  tblFiles :: "FileRow list"
  tblVersions :: "VersionRow list"
  tblVersionsFts :: "VersionRow list"

definition emptyDatabase :: Database where
  "emptyDatabase = \<lparr>tblFiles = [], tblVersions = [], tblVersionsFts = []\<rparr>"

text \<open>The rowid SQLite gives a new row of a table with an integer primary key: one
  more than the largest in the table, and 1 in an empty table.\<close>

definition nextRowid :: "int list \<Rightarrow> int" where
  "nextRowid ids = (case ids of [] \<Rightarrow> 1 | i # is \<Rightarrow> fold max is i + 1)"

text \<open>\<^verbatim>\<open>limit ?\<close>: a negative limit is no limit.\<close>

definition sqlLimit :: "int \<Rightarrow> 'a list \<Rightarrow> 'a list" where
  "sqlLimit n rows = (if n < 0 then rows else take (nat n) rows)"

text \<open>\<^verbatim>\<open>order by\<close>: the rows are inserted one by one into the sorted output, each
  after the rows that are before or equal to it in the order, so rows with equal keys
  stay in scan order.\<close>

fun insertBy :: "('a \<Rightarrow> 'a \<Rightarrow> bool) \<Rightarrow> 'a \<Rightarrow> 'a list \<Rightarrow> 'a list" where
  "insertBy le x [] = [x]"
| "insertBy le x (y # ys) = (if le x y then x # y # ys else y # insertBy le x ys)"

definition orderBy :: "('a \<Rightarrow> 'a \<Rightarrow> bool) \<Rightarrow> 'a list \<Rightarrow> 'a list" where
  "orderBy le rows = foldr (insertBy le) rows []"

text \<open>A row of \<^verbatim>\<open>Versions inner join Files on Versions.file = Files.file_id\<close>: the
  version's columns and the file's checksum.\<close>

type_synonym JoinedRow = "VersionRow \<times> string"

definition innerJoinFiles :: "VersionRow list \<Rightarrow> FileRow list \<Rightarrow> JoinedRow list" where
  "innerJoinFiles vs fs =
     concat (map (\<lambda>v. map (\<lambda>f. (v, checksum f)) (filter (\<lambda>f. file_id f = c_file v) fs)) vs)"

definition dateAsc :: "JoinedRow \<Rightarrow> JoinedRow \<Rightarrow> bool" where
  "dateAsc r s = (c_date (fst r) \<le> c_date (fst s))"

definition dateDesc :: "JoinedRow \<Rightarrow> JoinedRow \<Rightarrow> bool" where
  "dateDesc r s = (c_date (fst s) \<le> c_date (fst r))"

text \<open>\<^verbatim>\<open>datetime('now')\<close> writes the clock's time in the same layout as \<^verbatim>\<open>ToDBDate\<close>.\<close>

definition sqlite_datetime :: "Time \<Rightarrow> string" where
  "sqlite_datetime now = ToDBDate now"

subsection \<open>SQLite's like and the conditions the store builds\<close>

definition asciiLower :: "char \<Rightarrow> char" where
  "asciiLower c =
     (case map_of (zip ''ABCDEFGHIJKLMNOPQRSTUVWXYZ'' ''abcdefghijklmnopqrstuvwxyz'') c of
        None \<Rightarrow> c
      | Some l \<Rightarrow> l)"


text \<open>The conditions of a \<^verbatim>\<open>where\<close> clause that \<^verbatim>\<open>SimpleSearch\<close> writes, as a tree,
  with the text they stand for.\<close>

datatype sqlCond = Like string string | Or sqlCond sqlCond

definition quote :: char where
  "quote = CHR 0x27"

fun renderCond :: "sqlCond \<Rightarrow> string" where
  "renderCond (Like column pattern) = column @ '' like '' @ [quote] @ pattern @ [quote]"
| "renderCond (Or a b) = renderCond a @ '' or '' @ renderCond b"

definition columnValue :: "string \<Rightarrow> VersionRow \<Rightarrow> string" where
  "columnValue column r =
     (if column = ''info'' then c_info r
      else if column = ''version'' then c_version r
      else if column = ''fuzzy'' then c_fuzzy r
      else if column = ''date'' then c_date r
      else if column = ''path'' then c_path r
      else [])"


subsection \<open>filestore.go: the store and its statements\<close>

text \<open>The connection \<^verbatim>\<open>fs.db\<close>: nil before \<^verbatim>\<open>Open\<close>, open after it, and closed (not
  nil) after \<^verbatim>\<open>Close\<close>.\<close>

datatype sqlDB = NilDB | OpenDB | ClosedDB

record Filestore =
  Dir :: string
  Options :: nat
  db :: sqlDB

text \<open>What outlives the \<^verbatim>\<open>Filestore\<close> value: the database file and the disk.\<close>

record World =
  database :: Database
  disk :: OS

text \<open>\<^verbatim>\<open>flags.Flag0\<close> is the lowest bit, \<^verbatim>\<open>flags.Has\<close> tests a bit.\<close>

definition Compress :: nat where
  "Compress = 1"

definition Has_flag :: "nat \<Rightarrow> nat \<Rightarrow> bool" where
  "Has_flag b flag = (b AND flag \<noteq> 0)"


definition Root :: "Filestore \<Rightarrow> string" where
  "Root fs = (if Dir fs = [] then ''versions/'' else asDirectoryPath (Dir fs))"

definition dbPath :: "Filestore \<Rightarrow> string" where
  "dbPath fs = Root fs @ ''db.sqlite3''"

definition dbError :: "error \<Rightarrow> error" where
  "dbError e = Wrapped ''filestore DB error'' e"

definition localPath :: "Filestore \<Rightarrow> string \<Rightarrow> string \<Rightarrow> string" where
  "localPath fs name chk = Root fs @ chk @ [PathSeparator] @ name"

text \<open>\<^verbatim>\<open>Open\<close>: the root directory is ensured and the connection opened; the tables
  are created only if they do not exist, so the database is left as it is.\<close>

definition Open :: "Filestore \<Rightarrow> World \<Rightarrow> error option \<times> Filestore" where
  "Open fs w =
     (case ensureDirectory (Root fs) (disk w) of
        Some e \<Rightarrow> (Some (Wrapped ''filestore could not create root directory'' e), fs)
      | None \<Rightarrow> (None, fs\<lparr>db := OpenDB\<rparr>))"

text \<open>\<^verbatim>\<open>Close\<close> locks the mutex that \<^verbatim>\<open>Open\<close> made (a nil pointer before) and closes
  statements and connection; \<^verbatim>\<open>fs.db\<close> keeps pointing to the closed connection.\<close>

definition Close :: "Filestore \<Rightarrow> error option \<times> Filestore" where
  "Close fs =
     (if db fs = NilDB then (Some ErrNilPointer, fs) else (None, fs\<lparr>db := ClosedDB\<rparr>))"

text \<open>\<^verbatim>\<open>select file_id from Files where checksum=?\<close>\<close>

definition queryIDStmt :: "sqlDB \<Rightarrow> Database \<Rightarrow> string \<Rightarrow> error + int list" where
  "queryIDStmt h d chk =
     (if h \<noteq> OpenDB then Inl ErrDBClosed
      else Inr (map file_id (filter (\<lambda>f. checksum f = chk) (tblFiles d))))"

text \<open>\<^verbatim>\<open>insert into Files(checksum) Values(?)\<close>, under the unique index on the
  checksum; the result carries the new row's id.\<close>

definition insertFileStmt :: "sqlDB \<Rightarrow> Database \<Rightarrow> string \<Rightarrow> error + (int \<times> Database)" where
  "insertFileStmt h d chk =
     (if h \<noteq> OpenDB then Inl ErrDBClosed
      else if chk \<in> set (map checksum (tblFiles d)) then Inl ErrConstraint
      else let i = nextRowid (map file_id (tblFiles d))
           in Inr (i, d\<lparr>tblFiles := tblFiles d @ [\<lparr>file_id = i, checksum = chk\<rparr>]\<rparr>))"

text \<open>\<^verbatim>\<open>insert into Versions(path, info, fuzzy, version, date, file)
  values(?, ?, ?, ?, datetime('now'), ?)\<close>\<close>

definition insertVersionStmt ::
  "sqlDB \<Rightarrow> Database \<Rightarrow> Time \<Rightarrow> string \<Rightarrow> string \<Rightarrow> string \<Rightarrow> string \<Rightarrow> int \<Rightarrow> error + Database" where
  "insertVersionStmt h d now path info fuzzy version fileID =
     (if h \<noteq> OpenDB then Inl ErrDBClosed
      else Inr (d\<lparr>tblVersions := tblVersions d @
                  [\<lparr>version_id = nextRowid (map version_id (tblVersions d)),
                    c_path = path, c_info = info, c_fuzzy = fuzzy, c_version = version,
                    c_date = sqlite_datetime now, c_file = fileID\<rparr>]\<rparr>))"


text \<open>\<^verbatim>\<open>select ... from Versions inner join Files on Versions.file=Files.file_id
  where Versions.path=? order by Versions.date desc limit ?\<close>; \<^verbatim>\<open>getVersionStmt\<close> is
  the same statement with the limit 1.\<close>

definition getVersionsStmt :: "sqlDB \<Rightarrow> Database \<Rightarrow> string \<Rightarrow> int \<Rightarrow> error + JoinedRow list" where
  "getVersionsStmt h d p limit =
     (if h \<noteq> OpenDB then Inl ErrDBClosed
      else Inr (sqlLimit limit (orderBy dateDesc
                  (filter (\<lambda>r. c_path (fst r) = p) (innerJoinFiles (tblVersions d) (tblFiles d))))))"

definition getVersionStmt :: "sqlDB \<Rightarrow> Database \<Rightarrow> string \<Rightarrow> error + JoinedRow list" where
  "getVersionStmt h d p =
     (if h \<noteq> OpenDB then Inl ErrDBClosed
      else Inr (sqlLimit 1 (orderBy dateDesc
                  (filter (\<lambda>r. c_path (fst r) = p) (innerJoinFiles (tblVersions d) (tblFiles d))))))"

text \<open>The same with \<^verbatim>\<open>and Versions.date > ?\<close> in the condition.\<close>

definition getVersionsAfterStmt ::
  "sqlDB \<Rightarrow> Database \<Rightarrow> string \<Rightarrow> string \<Rightarrow> int \<Rightarrow> error + JoinedRow list" where
  "getVersionsAfterStmt h d p after limit =
     (if h \<noteq> OpenDB then Inl ErrDBClosed
      else Inr (sqlLimit limit (orderBy dateDesc
                  (filter (\<lambda>r. c_path (fst r) = p \<and> after < c_date (fst r))
                     (innerJoinFiles (tblVersions d) (tblFiles d))))))"


text \<open>\<^verbatim>\<open>select ... from VersionsFts inner join Files on VersionsFts.file=Files.file_id
  where <column> match ? or version match ? or date match ? order by date limit ?\<close>\<close>

definition searchQuery ::
  "Env \<Rightarrow> sqlDB \<Rightarrow> Database \<Rightarrow> string \<Rightarrow> string \<Rightarrow> int \<Rightarrow> error + JoinedRow list" where
  "searchQuery E h d column term limit =
     (if h \<noteq> OpenDB then Inl ErrDBClosed
      else case fts5 E term of
        None \<Rightarrow> Inl ErrSQLSyntax
      | Some matches \<Rightarrow>
          Inr (sqlLimit limit (orderBy dateAsc
                 (filter (\<lambda>r. matches (columnValue column (fst r)) \<or> matches (c_version (fst r))
                               \<or> matches (c_date (fst r)))
                    (innerJoinFiles (tblVersionsFts d) (tblFiles d))))))"

subsection \<open>filestore.go: adding a file\<close>

text \<open>\<^verbatim>\<open>Checksum\<close>: the digest of the file's bytes, or the error of opening it.\<close>

definition Filestore_Checksum :: "Env \<Rightarrow> string \<Rightarrow> OS \<Rightarrow> error + string" where
  "Filestore_Checksum E path w =
     (case files w path of None \<Rightarrow> Inl ErrNotExist | Some bytes \<Rightarrow> Inr (blake2b512 E bytes))"

definition isSpace :: "char \<Rightarrow> bool" where
  "isSpace c = (c = CHR '' '' \<or> c = CHR 0x09 \<or> c = CHR 0x0A \<or> c = CHR 0x0B \<or> c = CHR 0x0C
                \<or> c = CHR 0x0D)"

text \<open>\<^verbatim>\<open>strings.Fields\<close>: the words between runs of white space; \<open>cur\<close> is the word
  being read, reversed.\<close>

fun FieldsFrom :: "string \<Rightarrow> string \<Rightarrow> string list" where
  "FieldsFrom cur [] = (if cur = [] then [] else [rev cur])"
| "FieldsFrom cur (c # cs) =
     (if isSpace c then (if cur = [] then FieldsFrom [] cs else rev cur # FieldsFrom [] cs)
      else FieldsFrom (c # cur) cs)"

definition Fields :: "string \<Rightarrow> string list" where
  "Fields s = FieldsFrom [] s"

fun Join :: "string list \<Rightarrow> string \<Rightarrow> string" where
  "Join [] sep = []"
| "Join [e] sep = e"
| "Join (e # es) sep = e @ sep @ Join es sep"

text \<open>\<^verbatim>\<open>EncodeMetaphone\<close>: the primary encoding of each word, joined by spaces.\<close>

definition EncodeMetaphone :: "Env \<Rightarrow> string \<Rightarrow> string" where
  "EncodeMetaphone E text = Join (map (metaphone3 E) (Fields text)) '' ''"

text \<open>The block of \<^verbatim>\<open>addVersion\<close> that runs when no file row has the checksum: the
  blob's directory is ensured, the file is copied to
  \<^verbatim>\<open>root/checksum/name\<close> (with the suffix \<^verbatim>\<open>.snappy\<close> under compression), and the
  file row is inserted. A failed copy removes the destination and returns before the
  database is touched. The result is the error and the world left behind, or the new
  file id and the world.\<close>

definition storeNewFile ::
  "Env \<Rightarrow> Filestore \<Rightarrow> string \<Rightarrow> string \<Rightarrow> string \<Rightarrow> World \<Rightarrow> (error \<times> World) + (int \<times> World)" where
  "storeNewFile E fs path name chk w =
     (let dst0 = localPath fs name chk in
      case ensureDirectory (DirOf dst0) (disk w) of
        Some e \<Rightarrow> Inl (Wrapped ''filestore unable to create directory'' e, w)
      | None \<Rightarrow>
          let dst = (if Has_flag (Options fs) Compress then dst0 @ ''.snappy'' else dst0) in
          case copyFile E path dst (Has_flag (Options fs) Compress) False (disk w) of
            (Some e, os1) \<Rightarrow>
              Inl (Wrapped ''filestore failed to copy file'' e, w\<lparr>disk := os_Remove dst os1\<rparr>)
          | (None, os1) \<Rightarrow>
              (case insertFileStmt (db fs) (database w) chk of
                 Inl e \<Rightarrow> Inl (dbError e, w\<lparr>disk := os1\<rparr>)
               | Inr (fileID, d1) \<Rightarrow> Inr (fileID, w\<lparr>database := d1, disk := os1\<rparr>)))"

text \<open>\<^verbatim>\<open>addVersion\<close>: the file id of the checksum is looked up (0 when there is no
  row), the file is stored if the id is 0, and a version row is inserted in every
  case. \<open>now\<close> is the clock that \<^verbatim>\<open>datetime('now')\<close> reads.\<close>

definition addVersion ::
  "Env \<Rightarrow> Filestore \<Rightarrow> Time \<Rightarrow> string \<Rightarrow> string \<Rightarrow> string \<Rightarrow> string \<Rightarrow> World \<Rightarrow> error option \<times> World" where
  "addVersion E fs now path info version chk w =
     (let name = Base path; slashPath = ToSlash path in
      case queryIDStmt (db fs) (database w) chk of
        Inl e \<Rightarrow> (Some (dbError e), w)
      | Inr rows \<Rightarrow>
          let fileID0 = (case rows of [] \<Rightarrow> 0 | i # _ \<Rightarrow> i) in
          case (if fileID0 = 0 then storeNewFile E fs path name chk w else Inr (fileID0, w)) of
            Inl (e, w1) \<Rightarrow> (Some e, w1)
          | Inr (fileID, w1) \<Rightarrow>
              (case insertVersionStmt (db fs) (database w1) now slashPath info
                      (EncodeMetaphone E info) version fileID of
                 Inl e \<Rightarrow> (Some e, w1)
               | Inr d2 \<Rightarrow> (None, w1\<lparr>database := d2\<rparr>)))"

definition Add ::
  "Env \<Rightarrow> Filestore \<Rightarrow> Time \<Rightarrow> string \<Rightarrow> string \<Rightarrow> string \<Rightarrow> World \<Rightarrow> error option \<times> World" where
  "Add E fs now path info version w =
     (if db fs = NilDB then (Some ErrNotOpen, w)
      else case Filestore_Checksum E path (disk w) of
        Inl e \<Rightarrow> (Some (Wrapped ''filestore checksum failed'' e), w)
      | Inr chk \<Rightarrow> addVersion E fs now path info version chk w)"


subsection \<open>filestore.go: reading versions\<close>

record FileVersion =
  ID :: int
  Name :: string
  Path :: string
  Local :: string
  Info :: string
  Fuzzy :: string
  Version :: string
  From :: Time
  Checksum :: string

definition zeroFileVersion :: FileVersion where
  "zeroFileVersion =
     \<lparr>ID = 0, Name = [], Path = [], Local = [], Info = [], Fuzzy = [], Version = [],
      From = zeroTime, Checksum = []\<rparr>"

text \<open>\<^verbatim>\<open>Get\<close>: the first row of the statement, with the name taken from the path
  asked for; no row is the error of \<^verbatim>\<open>Scan\<close>, a date that does not parse is
  \<^verbatim>\<open>ErrInvalidDate\<close>.\<close>

definition Get :: "Filestore \<Rightarrow> World \<Rightarrow> string \<Rightarrow> FileVersion \<times> error option" where
  "Get fs w path =
     (if db fs = NilDB then (zeroFileVersion, Some ErrNotOpen)
      else case getVersionStmt (db fs) (database w) (ToSlash path) of
        Inl e \<Rightarrow> (zeroFileVersion, Some (dbError e))
      | Inr [] \<Rightarrow> (zeroFileVersion, Some (dbError ErrNoRows))
      | Inr ((r, chk) # _) \<Rightarrow>
          (case ParseDBDate (c_date r) of
             None \<Rightarrow> (zeroFileVersion, Some ErrInvalidDate)
           | Some t \<Rightarrow>
               (\<lparr>ID = version_id r, Name = Base path, Path = c_path r,
                 Local = localPath fs (Base path) chk, Info = c_info r, Fuzzy = c_fuzzy r,
                 Version = c_version r, From = t, Checksum = chk\<rparr>, None)))"

text \<open>\<^verbatim>\<open>Restore\<close> copies the blob at \<^verbatim>\<open>localPath(version.Name, version.Checksum)\<close> to
  the file of that name in the directory \<open>dst\<close>.\<close>

definition Restore :: "Env \<Rightarrow> Filestore \<Rightarrow> FileVersion \<Rightarrow> string \<Rightarrow> OS \<Rightarrow> error option \<times> OS" where
  "Restore E fs version dst w =
     (let useCompression = Has_flag (Options fs) Compress;
          dstFile = asDirectoryPath dst @ Name version;
          srcFile = localPath fs (Name version) (Checksum version)
      in copyFile E srcFile dstFile useCompression True w)"


text \<open>\<^verbatim>\<open>getVersions\<close>: the rows in their order, each made a \<^verbatim>\<open>FileVersion\<close> and
  appended to \<open>versions\<close>; the first date that does not parse ends the loop with
  \<^verbatim>\<open>nil, ErrInvalidDate\<close>.\<close>

fun getVersionsFrom ::
  "Filestore \<Rightarrow> FileVersion list \<Rightarrow> JoinedRow list \<Rightarrow> FileVersion slice \<times> error option" where
  "getVersionsFrom fs versions [] = (Slice versions, None)"
| "getVersionsFrom fs versions ((r, chk) # rows) =
     (case ParseDBDate (c_date r) of
        None \<Rightarrow> (NilSlice, Some ErrInvalidDate)
      | Some t \<Rightarrow>
          getVersionsFrom fs
            (versions @
               [\<lparr>ID = version_id r, Name = Base (FromSlash (c_path r)),
                 Path = FromSlash (c_path r),
                 Local = localPath fs (Base (FromSlash (c_path r))) chk,
                 Info = c_info r, Fuzzy = c_fuzzy r, Version = c_version r, From = t,
                 Checksum = chk\<rparr>])
            rows)"

definition getVersions :: "Filestore \<Rightarrow> JoinedRow list \<Rightarrow> FileVersion slice \<times> error option" where
  "getVersions fs rows = getVersionsFrom fs [] rows"

definition Versions ::
  "Filestore \<Rightarrow> World \<Rightarrow> string \<Rightarrow> int \<Rightarrow> FileVersion slice \<times> error option" where
  "Versions fs w path limit =
     (if db fs = NilDB then (NilSlice, Some ErrNotOpen)
      else case getVersionsStmt (db fs) (database w) path limit of
        Inl e \<Rightarrow> (NilSlice, Some (dbError e))
      | Inr rows \<Rightarrow> getVersions fs rows)"

definition VersionsAfter ::
  "Filestore \<Rightarrow> World \<Rightarrow> string \<Rightarrow> Time \<Rightarrow> int \<Rightarrow> FileVersion slice \<times> error option" where
  "VersionsAfter fs w path after limit =
     (if db fs = NilDB then (NilSlice, Some ErrNotOpen)
      else case getVersionsAfterStmt (db fs) (database w) path (ToDBDate after) limit of
        Inl e \<Rightarrow> (NilSlice, Some (dbError e))
      | Inr rows \<Rightarrow> getVersions fs rows)"

subsection \<open>filestore.go: searching\<close>

text \<open>\<^verbatim>\<open>safeReplacer\<close>: a replacer of single characters, each by the empty string.\<close>

definition safeReplacer :: "(char \<times> string) list" where
  "safeReplacer = [(quote, []), (CHR ''%'', []), (CHR '';'', []), (CHR 0x22, []), (CHR 0x5C, [])]"

definition Replace :: "(char \<times> string) list \<Rightarrow> string \<Rightarrow> string" where
  "Replace oldnew s = concat (map (\<lambda>c. case map_of oldnew c of None \<Rightarrow> [c] | Some new \<Rightarrow> new) s)"

text \<open>\<^verbatim>\<open>buildTerm\<close>: the text of the four \<^verbatim>\<open>like\<close> conditions on a column for a word,
  and the same as a condition.\<close>

definition buildTerm :: "string \<Rightarrow> string \<Rightarrow> string" where
  "buildTerm column word0 =
     (let word = Replace safeReplacer word0 in
      column @ '' like '' @ [quote] @ ''% '' @ word @ [quote] @ '' or '' @
      column @ '' like '' @ [quote] @ word @ '' %'' @ [quote] @ '' or '' @
      column @ '' like '' @ [quote] @ ''% '' @ word @ '' %'' @ [quote] @ '' or '' @
      column @ '' like '' @ [quote] @ word @ [quote])"

definition buildTermCond :: "string \<Rightarrow> string \<Rightarrow> sqlCond" where
  "buildTermCond column word0 =
     (let word = Replace safeReplacer word0 in
      Or (Or (Or (Like column (''% '' @ word)) (Like column (word @ '' %'')))
             (Like column (''% '' @ word @ '' %'')))
         (Like column word))"

text \<open>The loop of \<^verbatim>\<open>SimpleSearch\<close> over the words, on the text of the term and on
  the condition it stands for (none before the first word).\<close>

fun simpleSearchTerm :: "string \<Rightarrow> nat \<Rightarrow> string list \<Rightarrow> string" where
  "simpleSearchTerm term i [] = term"
| "simpleSearchTerm term i (word # words) =
     simpleSearchTerm
       ((if i > 0 then term @ '' or '' else term) @
          buildTerm ''info'' word @ '' or '' @ buildTerm ''version'' word)
       (Suc i) words"

fun simpleSearchCond :: "sqlCond option \<Rightarrow> string list \<Rightarrow> sqlCond option" where
  "simpleSearchCond cond [] = cond"
| "simpleSearchCond cond (word # words) =
     simpleSearchCond
       (Some (case cond of
                None \<Rightarrow> Or (buildTermCond ''info'' word) (buildTermCond ''version'' word)
              | Some c \<Rightarrow> Or (Or c (buildTermCond ''info'' word)) (buildTermCond ''version'' word)))
       words"


definition search ::
  "Env \<Rightarrow> Filestore \<Rightarrow> World \<Rightarrow> string \<Rightarrow> int \<Rightarrow> bool \<Rightarrow> FileVersion slice \<times> error option" where
  "search E fs w term limit fuzzy =
     (if db fs = NilDB then (NilSlice, Some ErrNotOpen)
      else let column = (if fuzzy then ''fuzzy'' else ''info'') in
        case searchQuery E (db fs) (database w) column term limit of
          Inl e \<Rightarrow> (NilSlice, Some e)
        | Inr rows \<Rightarrow> getVersions fs rows)"

definition Search ::
  "Env \<Rightarrow> Filestore \<Rightarrow> World \<Rightarrow> string \<Rightarrow> int \<Rightarrow> FileVersion slice \<times> error option" where
  "Search E fs w term limit = search E fs w term limit False"

definition FuzzySearch ::
  "Env \<Rightarrow> Filestore \<Rightarrow> World \<Rightarrow> string \<Rightarrow> int \<Rightarrow> FileVersion slice \<times> error option" where
  "FuzzySearch E fs w term limit = search E fs w term limit True"

text \<open>\<^verbatim>\<open>FTS5Escape\<close>: the term in double quotes, each double quote in it doubled.\<close>

definition FTS5Escape :: "string \<Rightarrow> string" where
  "FTS5Escape query =
     [CHR 0x22] @ concat (map (\<lambda>c. if c = CHR 0x22 then [CHR 0x22, CHR 0x22] else [c]) query)
       @ [CHR 0x22]"

section \<open>Properties\<close>

subsection \<open>Notions used in the statements\<close>

text \<open>The characters \<^verbatim>\<open>safeReplacer\<close> is meant to keep out of a pattern: both quotes,
  the percent sign, the semicolon and the backslash.\<close>

definition unsafeChar :: "char \<Rightarrow> bool" where
  "unsafeChar c = (c = quote \<or> c = CHR ''%'' \<or> c = CHR '';'' \<or> c = CHR 0x22 \<or> c = CHR 0x5C)"



text \<open>The catalog is in order when no two file rows have the same checksum and every
  file id is positive, as the ids are that SQLite gives.\<close>

definition catalogOK :: "Database \<Rightarrow> bool" where
  "catalogOK d = (distinct (map checksum (tblFiles d)) \<and> list_all (\<lambda>f. 0 < file_id f) (tblFiles d))"

text \<open>A sequence of \<^verbatim>\<open>Add\<close> calls, each with its clock, path, info and version;
  a call that fails leaves the world it returns.\<close>

fun addAll :: "Env \<Rightarrow> Filestore \<Rightarrow> (Time \<times> string \<times> string \<times> string) list \<Rightarrow> World \<Rightarrow> World" where
  "addAll E fs [] w = w"
| "addAll E fs ((now, path, info, version) # calls) w =
     addAll E fs calls (snd (Add E fs now path info version w))"

text \<open>An environment and a world to run the model on: the digest, the compression
  and the encoder are stand-ins that keep the bytes readable, and the full-text match
  accepts a text that has the term among its words.\<close>

definition exampleEnv :: Env where
  "exampleEnv =
     \<lparr>blake2b512 = (\<lambda>bytes. ''#'' @ bytes),
      snappyEncode = (\<lambda>bytes. ''s'' @ bytes),
      snappyDecode = (\<lambda>stream. case stream of [] \<Rightarrow> ([], False) | c # r \<Rightarrow> (r, c = CHR ''s'')),
      metaphone3 = (\<lambda>word. word),
      fts5 = (\<lambda>term. Some (\<lambda>text. term \<in> set (Fields text)))\<rparr>"

definition exampleDisk :: OS where
  "exampleDisk =
     \<lparr>files = [''/src/report.txt'' \<mapsto> ''hello'', ''/src/report_copy.txt'' \<mapsto> ''hello''],
      mkdirFails = (\<lambda>p. False), createFails = (\<lambda>p. False), copyLimit = (\<lambda>p. None)\<rparr>"

definition exampleWorld :: World where
  "exampleWorld = \<lparr>database = emptyDatabase, disk = exampleDisk\<rparr>"

definition exampleStore :: Filestore where
  "exampleStore = \<lparr>Dir = ''root'', Options = 0, db = OpenDB\<rparr>"

definition exampleTime :: Time where
  "exampleTime = \<lparr>Year = 2021, Month = 8, Day = 19, Hour = 7, Minute = 21, Second = 35, Nanosecond = 0\<rparr>"

definition exampleCalls :: "(Time \<times> string \<times> string \<times> string) list" where
  "exampleCalls =
     [(exampleTime, ''/src/report.txt'', ''quarterly report'', ''1.0''),
      (exampleTime, ''/src/report_copy.txt'', ''a copy'', ''1.0'')]"

definition exampleWorld1 :: World where
  "exampleWorld1 =
     snd (Add exampleEnv exampleStore exampleTime ''/src/report.txt'' ''quarterly report'' ''1.0''
            exampleWorld)"

text \<open>The same store with compression, the world after its first \<^verbatim>\<open>Add\<close>, the
  versions that \<^verbatim>\<open>Get\<close> returns, a disk on which a copy breaks off after two bytes,
  and the world after both example calls.\<close>

definition compressedStore :: Filestore where
  "compressedStore = \<lparr>Dir = ''root'', Options = Compress, db = OpenDB\<rparr>"

definition compressedWorld1 :: World where
  "compressedWorld1 =
     snd (Add exampleEnv compressedStore exampleTime ''/src/report.txt'' ''quarterly report'' ''1.0''
            exampleWorld)"

definition exampleVersion :: FileVersion where
  "exampleVersion =
     \<lparr>ID = 1, Name = ''report.txt'', Path = ''/src/report.txt'',
      Local = ''root/#hello/report.txt'', Info = ''quarterly report'',
      Fuzzy = ''quarterly report'', Version = ''1.0'', From = exampleTime, Checksum = ''#hello''\<rparr>"

definition faultyWorld :: World where
  "faultyWorld = exampleWorld\<lparr>disk := exampleDisk\<lparr>copyLimit := (\<lambda>p. Some 2)\<rparr>\<rparr>"

definition exampleWorld2 :: World where
  "exampleWorld2 = addAll exampleEnv exampleStore exampleCalls exampleWorld"

definition exampleVersion2 :: FileVersion where
  "exampleVersion2 =
     \<lparr>ID = 2, Name = ''report_copy.txt'', Path = ''/src/report_copy.txt'',
      Local = ''root/#hello/report_copy.txt'', Info = ''a copy'',
      Fuzzy = ''a copy'', Version = ''1.0'', From = exampleTime, Checksum = ''#hello''\<rparr>"



















subsection \<open>Examples of the helpers\<close>

lemma leadingDigits_0: "leadingDigits 0 = []"
  by (simp add: leadingDigits.simps)

lemma padNat_numeral:
  "padNat (numeral k) n = padNat (pred_numeral k) (n div 10) @ [digitChar n]"
  unfolding numeral_eq_Suc [of k] by (simp only: padNat.simps)

lemma padNat_1: "padNat 1 n = padNat 0 (n div 10) @ [digitChar n]"
  unfolding One_nat_def by (simp only: padNat.simps)

lemma Base_example: "Base ''/src/report.txt'' = ''report.txt''"
  by (simp add: Base_def lastElement_def stripTrailingSeparators_def IsPathSeparator_def
      PathSeparator_def)

lemma ParseDBDate_example:
  "ParseDBDate ''2021-08-19 07:21:35'' =
     Some \<lparr>Year = 2021, Month = 8, Day = 19, Hour = 7, Minute = 21, Second = 35, Nanosecond = 0\<rparr>"
  by code_simp

lemma ToDBDate_example:
  "ToDBDate \<lparr>Year = 2021, Month = 8, Day = 19, Hour = 7, Minute = 21, Second = 35, Nanosecond = 0\<rparr>
     = ''2021-08-19 07:21:35''"
  by (simp add: ToDBDate_def padNat_numeral padNat_1 leadingDigits_0 digitChar_def)

subsection \<open>The SQL model and the row loop\<close>

lemma Replace_safeReplacer_filter:
  "Replace safeReplacer word = filter (\<lambda>c. \<not> unsafeChar c) word"
  by (induction word) (auto simp: Replace_def safeReplacer_def unsafeChar_def quote_def)

lemma renderCond_buildTermCond: "renderCond (buildTermCond column word) = buildTerm column word"
  by (simp add: buildTermCond_def buildTerm_def Let_def)


lemma length_insertBy: "length (insertBy le x xs) = Suc (length xs)"
  by (induction xs) auto


lemma length_orderBy: "length (orderBy le xs) = length xs"
  by (induction xs) (auto simp: orderBy_def length_insertBy)










lemma set_innerJoinFiles: "fst ` set (innerJoinFiles vs fs) \<subseteq> set vs"
  by (auto simp: innerJoinFiles_def)

lemma orderBy_Nil: "orderBy le [] = []"
  by (simp add: orderBy_def)

lemma sqlLimit_Nil: "sqlLimit n [] = []"
  by (simp add: sqlLimit_def)


subsection \<open>Evaluating the model\<close>

lemmas path_defs = Base_def lastElement_def stripTrailingSeparators_def IsPathSeparator_def
  PathSeparator_def ToSlash_def FromSlash_def DirOf_def Clean_def asDirectoryPath_def

lemmas store_defs = Add_def Filestore_Checksum_def addVersion_def storeNewFile_def
  queryIDStmt_def insertFileStmt_def insertVersionStmt_def nextRowid_def localPath_def Root_def
  ensureDirectory_def copyFile_def io_Copy_def os_Remove_def Has_flag_def Compress_def
  EncodeMetaphone_def Fields_def isSpace_def sqlite_datetime_def

lemmas example_defs = exampleEnv_def exampleDisk_def exampleWorld_def exampleStore_def
  exampleTime_def emptyDatabase_def

lemma example_date: "ToDBDate exampleTime = ''2021-08-19 07:21:35''"
  by (simp add: ToDBDate_def exampleTime_def padNat_numeral padNat_1 leadingDigits_0 digitChar_def)

lemma example_checksum: "Filestore_Checksum exampleEnv ''/src/report.txt'' exampleDisk = Inr ''#hello''"
  by (simp add: Filestore_Checksum_def example_defs)

lemma example_blob_directory: "DirOf (localPath exampleStore ''report.txt'' ''#hello'') = ''root/#hello''"
  by (simp add: path_defs localPath_def Root_def exampleStore_def)

lemma example_metaphone: "EncodeMetaphone exampleEnv ''quarterly report'' = ''quarterly report''"
  by (simp add: EncodeMetaphone_def Fields_def isSpace_def exampleEnv_def)

lemma example_asciiLower: "asciiLower CHR ''Q'' = CHR ''q'' \<and> asciiLower CHR ''1'' = CHR ''1''"
  by (simp add: asciiLower_def)

lemma example_digits: "isDigit CHR ''5'' \<and> \<not> isDigit CHR ''a'' \<and> digitVal CHR ''7'' = 7"
  by (simp add: isDigit_def digitVal_def less_eq_char_def)

lemma example_parse: "ParseDBDate ''2021-08-19 07:21:35'' = Some exampleTime"
  by (simp add: ParseDBDate_def time_Parse_def isDigit_def digitVal_def less_eq_char_def skipSpaces_def
     inRange_def getFraction_def daysIn_def exampleTime_def)

lemma example_first_add: "database (snd (Add exampleEnv exampleStore exampleTime ''/src/report.txt'' ''quarterly report'' ''1.0'' exampleWorld))
  = \<lparr>tblFiles = [\<lparr>file_id = 1, checksum = ''#hello''\<rparr>],
     tblVersions = [\<lparr>version_id = 1, c_path = ''/src/report.txt'', c_info = ''quarterly report'',
        c_fuzzy = ''quarterly report'', c_version = ''1.0'', c_date = ''2021-08-19 07:21:35'', c_file = 1\<rparr>],
     tblVersionsFts = []\<rparr>"
  by (simp add: store_defs path_defs example_defs Let_def example_date[unfolded exampleTime_def])


lemmas query_defs = Get_def Versions_def VersionsAfter_def getVersionStmt_def getVersionsStmt_def
  getVersionsAfterStmt_def sqlLimit_def orderBy_def innerJoinFiles_def dateDesc_def dateAsc_def
  getVersions_def

subsection \<open>One file row per digest\<close>

lemma catalogOK_empty: "catalogOK emptyDatabase"
  by (simp add: catalogOK_def emptyDatabase_def)












lemma example_two_adds: "database (addAll exampleEnv exampleStore exampleCalls exampleWorld)
  = \<lparr>tblFiles = [\<lparr>file_id = 1, checksum = ''#hello''\<rparr>],
     tblVersions = [\<lparr>version_id = 1, c_path = ''/src/report.txt'', c_info = ''quarterly report'',
        c_fuzzy = ''quarterly report'', c_version = ''1.0'', c_date = ''2021-08-19 07:21:35'', c_file = 1\<rparr>,
       \<lparr>version_id = 2, c_path = ''/src/report_copy.txt'', c_info = ''a copy'',
        c_fuzzy = ''a copy'', c_version = ''1.0'', c_date = ''2021-08-19 07:21:35'', c_file = 1\<rparr>],
     tblVersionsFts = []\<rparr>"
  by (simp add: exampleCalls_def store_defs path_defs example_defs Let_def example_date[unfolded exampleTime_def])

lemma example_two_adds_disk: "dom (files (disk (addAll exampleEnv exampleStore exampleCalls exampleWorld)))
  = {''/src/report.txt'', ''/src/report_copy.txt'', ''root/#hello/report.txt''}"
  by (auto simp add: exampleCalls_def store_defs path_defs example_defs Let_def example_date[unfolded exampleTime_def] split: if_splits)



lemma example_world1_database:
  "database exampleWorld1 =
     \<lparr>tblFiles = [\<lparr>file_id = 1, checksum = ''#hello''\<rparr>],
      tblVersions = [\<lparr>version_id = 1, c_path = ''/src/report.txt'', c_info = ''quarterly report'',
        c_fuzzy = ''quarterly report'', c_version = ''1.0'', c_date = ''2021-08-19 07:21:35'',
        c_file = 1\<rparr>],
      tblVersionsFts = []\<rparr>"
  unfolding exampleWorld1_def by (rule example_first_add)



subsection \<open>Restoring what was added\<close>

lemma compressed_add_ok:
  "fst (Add exampleEnv compressedStore exampleTime ''/src/report.txt'' ''quarterly report'' ''1.0''
            exampleWorld) = None"
  by (simp add: compressedStore_def store_defs path_defs example_defs Let_def)

lemma compressed_db: "database compressedWorld1 = database exampleWorld1"
  by (simp add: compressedWorld1_def exampleWorld1_def compressedStore_def store_defs path_defs example_defs Let_def)

lemma compressed_files:
  "files (disk compressedWorld1) =
     (files exampleDisk)(''root/#hello/report.txt.snappy'' \<mapsto> ''shello'')"
  by (simp add: compressedWorld1_def compressedStore_def store_defs path_defs example_defs Let_def)

lemma compressed_get: "Get compressedStore compressedWorld1 ''/src/report.txt'' = (exampleVersion, None)"
  by (simp add: compressed_db example_world1_database query_defs compressedStore_def example_parse
      exampleVersion_def path_defs localPath_def Root_def)

lemma compressed_restore:
  "Restore exampleEnv compressedStore exampleVersion ''/out'' (disk compressedWorld1)
     = (Some ErrNotExist, disk compressedWorld1)"
  by (simp add: Restore_def copyFile_def compressed_files exampleVersion_def compressedStore_def
      localPath_def Root_def path_defs Has_flag_def Compress_def exampleDisk_def Let_def)

text \<open>
  C2, at a store with compression. \<^verbatim>\<open>Add\<close> writes the blob to
  \<^verbatim>\<open>root/checksum/name.snappy\<close>; \<^verbatim>\<open>Get\<close> returns the version; \<^verbatim>\<open>Restore\<close> of that
  version opens \<^verbatim>\<open>root/checksum/name\<close>, which does not exist, fails, and writes no
  file.
\<close>

theorem Restore_misses_compressed_blob:
  "fst (Add exampleEnv compressedStore exampleTime ''/src/report.txt'' ''quarterly report'' ''1.0''
          exampleWorld) = None \<and>
   files (disk compressedWorld1) ''root/#hello/report.txt.snappy'' = Some ''shello'' \<and>
   files (disk compressedWorld1) ''root/#hello/report.txt'' = None \<and>
   Get compressedStore compressedWorld1 ''/src/report.txt'' = (exampleVersion, None) \<and>
   Restore exampleEnv compressedStore exampleVersion ''/out'' (disk compressedWorld1)
     = (Some ErrNotExist, disk compressedWorld1) \<and>
   files (disk compressedWorld1) ''/out/report.txt'' = None"
  by (simp add: compressed_add_ok compressed_get compressed_restore compressed_files exampleDisk_def)

text \<open>Without compression the first version of a content is restored byte for byte,
  and a version that shares its blob with a file of another name is not: the blob
  lies under the first name.\<close>

lemma example_world2_files:
  "files (disk exampleWorld2) = (files exampleDisk)(''root/#hello/report.txt'' \<mapsto> ''hello'')"
  by (simp add: exampleWorld2_def exampleCalls_def store_defs path_defs example_defs Let_def)

lemma example_world2_database:
  "database exampleWorld2 =
     \<lparr>tblFiles = [\<lparr>file_id = 1, checksum = ''#hello''\<rparr>],
      tblVersions = [\<lparr>version_id = 1, c_path = ''/src/report.txt'', c_info = ''quarterly report'',
        c_fuzzy = ''quarterly report'', c_version = ''1.0'', c_date = ''2021-08-19 07:21:35'', c_file = 1\<rparr>,
       \<lparr>version_id = 2, c_path = ''/src/report_copy.txt'', c_info = ''a copy'',
        c_fuzzy = ''a copy'', c_version = ''1.0'', c_date = ''2021-08-19 07:21:35'', c_file = 1\<rparr>],
      tblVersionsFts = []\<rparr>"
  unfolding exampleWorld2_def by (rule example_two_adds)

lemma Restore_misses_blob_of_other_name:
  "Get exampleStore exampleWorld2 ''/src/report_copy.txt'' = (exampleVersion2, None) \<and>
   Restore exampleEnv exampleStore exampleVersion2 ''/out'' (disk exampleWorld2)
     = (Some ErrNotExist, disk exampleWorld2)"
proof -
  have "Get exampleStore exampleWorld2 ''/src/report_copy.txt'' = (exampleVersion2, None)"
    by (simp add: example_world2_database query_defs exampleStore_def example_parse
        exampleVersion2_def path_defs localPath_def Root_def)
  moreover have "Restore exampleEnv exampleStore exampleVersion2 ''/out'' (disk exampleWorld2)
     = (Some ErrNotExist, disk exampleWorld2)"
    by (simp add: Restore_def copyFile_def example_world2_files exampleVersion2_def exampleStore_def
        localPath_def Root_def path_defs Has_flag_def Compress_def exampleDisk_def Let_def)
  ultimately show ?thesis by simp
qed

lemma Restore_first_version_uncompressed:
  "Restore exampleEnv exampleStore exampleVersion ''/out'' (disk exampleWorld1)
     = (None, (disk exampleWorld1)\<lparr>files := (files (disk exampleWorld1))(''/out/report.txt'' \<mapsto> ''hello'')\<rparr>)"
  by (simp add: exampleWorld1_def store_defs path_defs example_defs Let_def Restore_def exampleVersion_def)

text \<open>In general, without compression: a successful \<^verbatim>\<open>Add\<close> of a new digest leaves
  the file's bytes at \<^verbatim>\<open>root/checksum/name\<close> (the file added is not that blob
  itself), and \<^verbatim>\<open>Restore\<close> of a version copies the blob at
  \<^verbatim>\<open>root/checksum/name\<close> for the version's own name, when there is one and the
  destination can be written.\<close>

lemma Add_stores_blob:
  assumes "db fs = OpenDB" and "\<not> Has_flag (Options fs) Compress"
    and "files (disk w) path = Some bytes"
    and "blake2b512 E bytes \<notin> set (map checksum (tblFiles (database w)))"
    and "path \<noteq> localPath fs (Base path) (blake2b512 E bytes)"
    and "Add E fs now path info version w = (None, w1)"
  shows "files (disk w1) (localPath fs (Base path) (blake2b512 E bytes)) = Some bytes"
proof -
  from assms(4) have "\<forall>f\<in>set (tblFiles (database w)). checksum f \<noteq> blake2b512 E bytes"
    by (metis image_eqI set_map)
  then have none: "filter (\<lambda>f. checksum f = blake2b512 E bytes) (tblFiles (database w)) = []"
    by (simp add: filter_empty_conv)
  show ?thesis
    using assms(1,2,3,5,6) none
    by (auto simp: Add_def Filestore_Checksum_def addVersion_def storeNewFile_def queryIDStmt_def
        copyFile_def io_Copy_def insertFileStmt_def insertVersionStmt_def Let_def
        split: if_splits option.splits sum.splits prod.splits)
qed

lemma Restore_copies_blob:
  assumes "\<not> Has_flag (Options fs) Compress"
    and "files w (localPath fs (Name v) (Checksum v)) = Some bytes"
    and "\<not> createFails w (asDirectoryPath dst @ Name v)"
    and "copyLimit w (asDirectoryPath dst @ Name v) = None"
    and "asDirectoryPath dst @ Name v \<noteq> localPath fs (Name v) (Checksum v)"
  shows "Restore E fs v dst w =
           (None, w\<lparr>files := (files w)(asDirectoryPath dst @ Name v \<mapsto> bytes)\<rparr>)"
  using assms by (simp add: Restore_def copyFile_def io_Copy_def Let_def)

subsection \<open>A copy that fails\<close>

text \<open>
  C3. On an open store, when the file's digest has no file row, the blob's directory
  is in place and copying the file to the blob's path fails, \<^verbatim>\<open>Add\<close> returns the
  copy's error wrapped, the database is as before, and no file is left at the blob's
  path.
\<close>

theorem Add_copy_failure_leaves_catalog:
  assumes "db fs = OpenDB"
    and "files (disk w) path = Some bytes"
    and "blake2b512 E bytes \<notin> set (map checksum (tblFiles (database w)))"
    and "ensureDirectory (DirOf (localPath fs (Base path) (blake2b512 E bytes))) (disk w) = None"
    and "dst = (if Has_flag (Options fs) Compress
                then localPath fs (Base path) (blake2b512 E bytes) @ ''.snappy''
                else localPath fs (Base path) (blake2b512 E bytes))"
    and "copyFile E path dst (Has_flag (Options fs) Compress) False (disk w) = (Some e, os1)"
  shows "Add E fs now path info version w =
           (Some (Wrapped ''filestore failed to copy file'' e), w\<lparr>disk := os_Remove dst os1\<rparr>)
         \<and> database (snd (Add E fs now path info version w)) = database w
         \<and> files (disk (snd (Add E fs now path info version w))) dst = None"
proof -
  from assms(3) have "\<forall>f\<in>set (tblFiles (database w)). checksum f \<noteq> blake2b512 E bytes"
    by (metis image_eqI set_map)
  then have none: "filter (\<lambda>f. checksum f = blake2b512 E bytes) (tblFiles (database w)) = []"
    by (simp add: filter_empty_conv)
  have "Add E fs now path info version w =
           (Some (Wrapped ''filestore failed to copy file'' e), w\<lparr>disk := os_Remove dst os1\<rparr>)"
    using assms(1,2,4,5,6) none
    by (simp add: Add_def Filestore_Checksum_def addVersion_def storeNewFile_def queryIDStmt_def Let_def)
  then show ?thesis by (simp add: os_Remove_def)
qed

theorem Add_copy_failure_leaves_catalog_witness:
  "db exampleStore = OpenDB \<and> files (disk faultyWorld) ''/src/report.txt'' = Some ''hello'' \<and>
   blake2b512 exampleEnv ''hello'' \<notin> set (map checksum (tblFiles (database faultyWorld))) \<and>
   ensureDirectory (DirOf (localPath exampleStore (Base ''/src/report.txt'') (blake2b512 exampleEnv ''hello'')))
     (disk faultyWorld) = None \<and>
   copyFile exampleEnv ''/src/report.txt'' ''root/#hello/report.txt''
       (Has_flag (Options exampleStore) Compress) False (disk faultyWorld)
     = (Some ErrIO, (disk faultyWorld)\<lparr>files := (files (disk faultyWorld))(''root/#hello/report.txt'' \<mapsto> ''he'')\<rparr>) \<and>
   fst (Add exampleEnv exampleStore exampleTime ''/src/report.txt'' ''quarterly report'' ''1.0'' faultyWorld)
     = Some (Wrapped ''filestore failed to copy file'' ErrIO) \<and>
   database (snd (Add exampleEnv exampleStore exampleTime ''/src/report.txt'' ''quarterly report'' ''1.0'' faultyWorld))
     = database faultyWorld \<and>
   files (disk (snd (Add exampleEnv exampleStore exampleTime ''/src/report.txt'' ''quarterly report'' ''1.0'' faultyWorld)))
     ''root/#hello/report.txt'' = None"
proof -
  have h1: "db exampleStore = OpenDB" by (simp add: exampleStore_def)
  have h2: "files (disk faultyWorld) ''/src/report.txt'' = Some ''hello''"
    by (simp add: faultyWorld_def example_defs)
  have h3: "blake2b512 exampleEnv ''hello'' \<notin> set (map checksum (tblFiles (database faultyWorld)))"
    by (simp add: faultyWorld_def example_defs)
  have h4: "ensureDirectory (DirOf (localPath exampleStore (Base ''/src/report.txt'') (blake2b512 exampleEnv ''hello'')))
     (disk faultyWorld) = None"
    by (simp add: faultyWorld_def example_defs ensureDirectory_def localPath_def Root_def path_defs)
  have h5: "''root/#hello/report.txt'' = (if Has_flag (Options exampleStore) Compress
                then localPath exampleStore (Base ''/src/report.txt'') (blake2b512 exampleEnv ''hello'') @ ''.snappy''
                else localPath exampleStore (Base ''/src/report.txt'') (blake2b512 exampleEnv ''hello''))"
    by (simp add: example_defs localPath_def Root_def path_defs Has_flag_def Compress_def)
  have h6: "copyFile exampleEnv ''/src/report.txt'' ''root/#hello/report.txt''
       (Has_flag (Options exampleStore) Compress) False (disk faultyWorld)
     = (Some ErrIO, (disk faultyWorld)\<lparr>files := (files (disk faultyWorld))(''root/#hello/report.txt'' \<mapsto> ''he'')\<rparr>)"
    by (simp add: faultyWorld_def example_defs copyFile_def io_Copy_def Has_flag_def Compress_def Let_def)
  note t = Add_copy_failure_leaves_catalog [OF h1 h2 h3 h4 h5 h6,
      of exampleTime "''quarterly report''" "''1.0''"]
  from t have t1: "fst (Add exampleEnv exampleStore exampleTime ''/src/report.txt'' ''quarterly report'' ''1.0'' faultyWorld)
     = Some (Wrapped ''filestore failed to copy file'' ErrIO)" by simp
  from h1 h2 h3 h4 h6 t t1 show ?thesis by blast
qed

subsection \<open>A store that is not open\<close>




text \<open>After \<^verbatim>\<open>Close\<close> the connection is closed but not nil, and an \<^verbatim>\<open>Add\<close> fails in
  the database instead.\<close>

lemma Add_after_Close:
  "Close exampleStore = (None, exampleStore\<lparr>db := ClosedDB\<rparr>) \<and>
   Add exampleEnv (exampleStore\<lparr>db := ClosedDB\<rparr>) exampleTime ''/src/report.txt''
     ''quarterly report'' ''1.0'' exampleWorld
     = (Some (Wrapped ''filestore DB error'' ErrDBClosed), exampleWorld)"
  by (simp add: Close_def store_defs dbError_def example_defs)

subsection \<open>Dates that do not parse\<close>






subsection \<open>A path without versions\<close>

text \<open>
  C10. On an open store, for a path that no version row has, \<^verbatim>\<open>Versions\<close> and
  \<^verbatim>\<open>VersionsAfter\<close> return an empty slice that is not nil and no error, and \<^verbatim>\<open>Get\<close>
  returns an error.
\<close>

theorem unknown_path_has_no_versions:
  assumes "db fs = OpenDB" and "\<forall>v\<in>set (tblVersions (database w)). c_path v \<noteq> path"
  shows "Versions fs w path limit = (Slice [], None) \<and>
    VersionsAfter fs w path after limit = (Slice [], None) \<and>
    Get fs w path = (zeroFileVersion, Some (dbError ErrNoRows))"
proof -
  let ?J = "innerJoinFiles (tblVersions (database w)) (tblFiles (database w))"
  have "\<forall>jr\<in>set ?J. c_path (fst jr) \<noteq> path"
    using assms(2) set_innerJoinFiles [of "tblVersions (database w)" "tblFiles (database w)"]
    by blast
  then have e1: "filter (\<lambda>r. c_path (fst r) = path) ?J = []"
    and e2: "\<And>a. filter (\<lambda>r. c_path (fst r) = path \<and> a < c_date (fst r)) ?J = []"
    by (simp_all add: filter_empty_conv)
  have slash: "ToSlash path = path" by (simp add: ToSlash_def PathSeparator_def)
  show ?thesis
    using assms(1)
    by (simp add: Versions_def VersionsAfter_def Get_def getVersionsStmt_def getVersionStmt_def
        getVersionsAfterStmt_def e1 e2 slash orderBy_Nil sqlLimit_Nil getVersions_def)
qed

theorem unknown_path_has_no_versions_witness:
  "db exampleStore = OpenDB \<and>
   Versions exampleStore exampleWorld1 ''/src/other.txt'' 10 = (Slice [], None) \<and>
   VersionsAfter exampleStore exampleWorld1 ''/src/other.txt'' exampleTime 10 = (Slice [], None) \<and>
   Get exampleStore exampleWorld1 ''/src/other.txt'' = (zeroFileVersion, Some (dbError ErrNoRows))"
proof -
  have h1: "db exampleStore = OpenDB" by (simp add: exampleStore_def)
  have h2: "\<forall>v\<in>set (tblVersions (database exampleWorld1)). c_path v \<noteq> ''/src/other.txt''"
    by (simp add: example_world1_database)
  from unknown_path_has_no_versions [OF h1 h2, of 10 exampleTime] h1 show ?thesis by simp
qed

subsection \<open>The history of a path\<close>








subsection \<open>The full-text searches\<close>

text \<open>No statement of the store writes to the full-text table, so a store filled by
  \<^verbatim>\<open>Add\<close> alone finds nothing.\<close>

lemma Add_leaves_full_text_table:
  "tblVersionsFts (database (snd (Add E fs now path info version w))) = tblVersionsFts (database w)"
  by (auto simp: Add_def addVersion_def storeNewFile_def insertFileStmt_def insertVersionStmt_def
      Let_def split: sum.splits option.splits prod.splits if_splits)

lemma addAll_leaves_full_text_table:
  "tblVersionsFts (database (addAll E fs calls w)) = tblVersionsFts (database w)"
  by (induction E fs calls w rule: addAll.induct) (simp_all add: Add_leaves_full_text_table)

lemma Search_after_Adds_is_empty:
  assumes "db fs = OpenDB" and "fts5 E query = Some matches"
    and "tblVersionsFts (database w) = []"
  shows "Search E fs (addAll E fs calls w) query limit = (Slice [], None)"
    and "FuzzySearch E fs (addAll E fs calls w) query limit = (Slice [], None)"
  using assms addAll_leaves_full_text_table [of E fs calls w]
  by (simp_all add: Search_def FuzzySearch_def search_def searchQuery_def innerJoinFiles_def
      orderBy_def sqlLimit_def getVersions_def)









subsection \<open>The simple search\<close>
















lemma simpleSearchTerm_Some:
  "0 < i \<Longrightarrow> simpleSearchCond (Some c) words = Some c' \<Longrightarrow>
   simpleSearchTerm (renderCond c) i words = renderCond c'"
proof (induction words arbitrary: c i)
  case Nil
  then show ?case by simp
next
  case (Cons word words)
  let ?c1 = "Or (Or c (buildTermCond ''info'' word)) (buildTermCond ''version'' word)"
  from Cons.prems have "simpleSearchCond (Some ?c1) words = Some c'" by simp
  then have "simpleSearchTerm (renderCond ?c1) (Suc i) words = renderCond c'"
    by (rule Cons.IH [rotated]) simp
  with Cons.prems(1) show ?case by (simp add: renderCond_buildTermCond)
qed

lemma simpleSearchTerm_renders_cond:
  assumes "simpleSearchCond None words = Some c"
  shows "simpleSearchTerm [] 0 words = renderCond c"
proof (cases words)
  case Nil
  with assms show ?thesis by simp
next
  case (Cons word rest)
  let ?c1 = "Or (buildTermCond ''info'' word) (buildTermCond ''version'' word)"
  from assms Cons have "simpleSearchCond (Some ?c1) rest = Some c" by simp
  then have "simpleSearchTerm (renderCond ?c1) (Suc 0) rest = renderCond c"
    by (rule simpleSearchTerm_Some [rotated]) simp
  with Cons show ?thesis by (simp add: renderCond_buildTermCond)
qed









subsection \<open>Sanitising the words of a simple search\<close>

text \<open>
  C7. \<^verbatim>\<open>buildTerm\<close> builds its four patterns from the word with every quote,
  percent sign, semicolon and backslash deleted: the condition is the four \<^verbatim>\<open>like\<close>
  patterns over the filtered word, the text handed to SQLite is the rendering of that
  condition, and the filtered word holds none of these characters. The only such
  characters in a pattern are therefore the percent signs of the template itself.
\<close>

theorem buildTerm_strips_unsafe_chars:
  "buildTermCond column word =
     Or (Or (Or (Like column (''% '' @ filter (\<lambda>c. \<not> unsafeChar c) word))
                (Like column (filter (\<lambda>c. \<not> unsafeChar c) word @ '' %'')))
            (Like column (''% '' @ filter (\<lambda>c. \<not> unsafeChar c) word @ '' %'')))
        (Like column (filter (\<lambda>c. \<not> unsafeChar c) word))
   \<and> buildTerm column word = renderCond (buildTermCond column word)
   \<and> set (filter (\<lambda>c. \<not> unsafeChar c) word) \<inter> Collect unsafeChar = {}"
proof -
  have "set (filter (\<lambda>c. \<not> unsafeChar c) word) \<inter> Collect unsafeChar = {}"
    by auto
  moreover have "buildTerm column word = renderCond (buildTermCond column word)"
    by (simp add: renderCond_buildTermCond)
  ultimately show ?thesis
    by (simp add: buildTermCond_def Replace_safeReplacer_filter Let_def)
qed

end
